theory Spec2Isabelle
  imports Main "HOL-Library.AList" "HOL-Library.Multiset"
begin

section \<open>JavaScript values\<close>

text \<open>
  The service in \<^verbatim>\<open>server/services/rawgServices.js\<close> is untyped: every field it reads from a
  provider's JSON, and every variable it keeps, is a JavaScript value. The scalar values are
  modelled here. A number is a double: \<open>Num n\<close> is the double that the integer literal \<open>n\<close>
  denotes (the double itself when \<open>n\<close> is one, which every integer of magnitude up to \<open>2^53\<close>
  is), next to the two infinities and \<^verbatim>\<open>NaN\<close>. Numbers with a fractional part, arrays and
  objects as values of a field are outside this model.
\<close>

datatype jsval =
  Undefined | Null | Bool bool | Num int | Infinity | MinusInfinity | NaN | Str string

text \<open>\<^verbatim>\<open>if (v)\<close> and \<^verbatim>\<open>!v\<close>: the falsy values are \<^verbatim>\<open>undefined\<close>, \<^verbatim>\<open>null\<close>, \<^verbatim>\<open>false\<close>,
  \<^verbatim>\<open>0\<close>, \<^verbatim>\<open>NaN\<close> and the empty string.\<close>

fun truthy :: "jsval \<Rightarrow> bool" where
  "truthy Undefined = False"
| "truthy Null = False"
| "truthy (Bool b) = b"
| "truthy (Num n) = (n \<noteq> 0)"
| "truthy Infinity = True"
| "truthy MinusInfinity = True"
| "truthy NaN = False"
| "truthy (Str s) = (s \<noteq> [])"

subsection \<open>Double arithmetic on the integers\<close>

text \<open>The integer-valued doubles, the infinities and \<^verbatim>\<open>NaN\<close>.\<close>

datatype number = Finite int | PosInfinity | NegInfinity | NotNumber

fun of_number :: "number \<Rightarrow> jsval" where
  "of_number (Finite n) = Num n"
| "of_number PosInfinity = Infinity"
| "of_number NegInfinity = MinusInfinity"
| "of_number NotNumber = NaN"

text \<open>The number of binary digits of a natural number.\<close>

fun bits :: "nat \<Rightarrow> nat" where
  "bits n = (if n = 0 then 0 else Suc (bits (n div 2)))"

text \<open>
  A non-negative integer rounded to 53 significant binary digits, to the nearest such value
  and, half way between two, to the one whose last digit is even: the rounding of IEEE 754
  that every arithmetic operation of JavaScript applies to its exact result.
\<close>

definition round53 :: "int \<Rightarrow> int" where
  "round53 m =
     (if m < 2 ^ 53 then m
      else let e = bits (nat m) - 53;
               q = m div 2 ^ e;
               r = m mod 2 ^ e;
               h = 2 ^ (e - 1)
           in (if h < r \<or> (r = h \<and> odd q) then q + 1 else q) * 2 ^ e)"

text \<open>The double nearest to an integer; a magnitude that rounds to \<open>2^1024\<close> or more
  overflows to an infinity.\<close>

definition double :: "int \<Rightarrow> number" where
  "double n =
     (let m = round53 \<bar>n\<bar>
      in if 2 ^ 1024 \<le> m then (if n < 0 then NegInfinity else PosInfinity)
         else Finite (if n < 0 then - m else m))"

text \<open>Addition of numbers: the exact sum, rounded.\<close>

fun add :: "number \<Rightarrow> number \<Rightarrow> number" where
  "add (Finite x) (Finite y) = double (x + y)"
| "add NotNumber y = NotNumber"
| "add x NotNumber = NotNumber"
| "add PosInfinity NegInfinity = NotNumber"
| "add NegInfinity PosInfinity = NotNumber"
| "add PosInfinity y = PosInfinity"
| "add x PosInfinity = PosInfinity"
| "add NegInfinity y = NegInfinity"
| "add x NegInfinity = NegInfinity"

subsection \<open>Numbers as strings\<close>

definition digit_char :: "nat \<Rightarrow> char" where
  "digit_char n = ''0123456789'' ! (n mod 10)"

fun show_nat :: "nat \<Rightarrow> string" where
  "show_nat n = (if n < 10 then [digit_char n] else show_nat (n div 10) @ [digit_char n])"

text \<open>
  \<^verbatim>\<open>Number.prototype.toString\<close> prints the shortest decimal that denotes the double: the
  fewest significant digits \<open>k\<close> such that a decimal of \<open>k\<close> digits and zeros rounds to it and,
  of two such decimals, the nearer one (the one with the even last digit when both are as
  near). For a double \<open>x\<close> of \<open>d\<close> decimal digits, \<open>candidate x d k\<close> is that decimal of \<open>k\<close>
  digits, if there is one.
\<close>

definition candidate :: "int \<Rightarrow> nat \<Rightarrow> nat \<Rightarrow> int option" where
  "candidate x d k =
     (let p = 10 ^ (d - k);
          lo = (x div p) * p;
          hi = lo + p;
          lo_ok = (double lo = Finite x);
          hi_ok = (double hi = Finite x)
      in if lo_ok \<and> hi_ok
         then Some (if x - lo < hi - x \<or> (x - lo = hi - x \<and> even (x div p)) then lo else hi)
         else if lo_ok then Some lo
         else if hi_ok then Some hi
         else None)"

definition shortest :: "int \<Rightarrow> int" where
  "shortest x =
     (let d = length (show_nat (nat x))
      in case List.map_filter (candidate x d) [1..<Suc d] of
           [] \<Rightarrow> x
         | c # cs \<Rightarrow> c)"

text \<open>A decimal of more than 21 digits is printed with an exponent.\<close>

definition exponent_form :: "string \<Rightarrow> string" where
  "exponent_form s =
     (case rev (dropWhile (\<lambda>c. c = CHR ''0'') (rev s)) of
        [] \<Rightarrow> s
      | [d] \<Rightarrow> d # ''e+'' @ show_nat (length s - 1)
      | d # ds \<Rightarrow> d # CHR ''.'' # ds @ ''e+'' @ show_nat (length s - 1))"

text \<open>Below \<open>2^53\<close> the shortest decimal of an integer is the integer itself.\<close>

definition show_magnitude :: "int \<Rightarrow> string" where
  "show_magnitude x =
     (if x < 2 ^ 53 then show_nat (nat x)
      else let s = show_nat (nat (shortest x))
           in if length s \<le> 21 then s else exponent_form s)"

fun show_number :: "number \<Rightarrow> string" where
  "show_number (Finite n) =
     (if n < 0 then CHR ''-'' # show_magnitude (- n) else show_magnitude n)"
| "show_number PosInfinity = ''Infinity''"
| "show_number NegInfinity = ''-Infinity''"
| "show_number NotNumber = ''NaN''"

subsection \<open>Conversions and the operator \<^verbatim>\<open>+\<close>\<close>

text \<open>ToString.\<close>

fun to_string :: "jsval \<Rightarrow> string" where
  "to_string Undefined = ''undefined''"
| "to_string Null = ''null''"
| "to_string (Bool b) = (if b then ''true'' else ''false'')"
| "to_string (Num n) = show_number (double n)"
| "to_string Infinity = ''Infinity''"
| "to_string MinusInfinity = ''-Infinity''"
| "to_string NaN = ''NaN''"
| "to_string (Str s) = s"

text \<open>ToNumber on the values that \<^verbatim>\<open>+\<close> adds as numbers; \<open>None\<close> for a string, which
  \<^verbatim>\<open>+\<close> concatenates.\<close>

fun numeric :: "jsval \<Rightarrow> number option" where
  "numeric Undefined = Some NotNumber"
| "numeric Null = Some (Finite 0)"
| "numeric (Bool b) = Some (Finite (if b then 1 else 0))"
| "numeric (Num n) = Some (double n)"
| "numeric Infinity = Some PosInfinity"
| "numeric MinusInfinity = Some NegInfinity"
| "numeric NaN = Some NotNumber"
| "numeric (Str s) = None"

text \<open>The operator \<^verbatim>\<open>+\<close>: string concatenation as soon as one operand is a string, numeric
  addition otherwise.\<close>

definition js_add :: "jsval \<Rightarrow> jsval \<Rightarrow> jsval" where
  "js_add a b =
     (case (numeric a, numeric b) of
        (Some x, Some y) \<Rightarrow> of_number (add x y)
      | _ \<Rightarrow> Str (to_string a @ to_string b))"

section \<open>Network replies and exceptions\<close>

text \<open>
  An \<^verbatim>\<open>axios\<close> call either resolves with a response or rejects with an error object. The
  error object carries a \<^verbatim>\<open>response\<close> property only when the server answered (with a status
  outside 2xx); when no answer was received \<^verbatim>\<open>error.response\<close> is \<^verbatim>\<open>undefined\<close>.
\<close>

datatype failure = NoResponse | ErrorStatus

datatype 'a reply = Rejected failure | Resolved 'a

datatype exn = AxiosError failure | TypeError | Error string

section \<open>The streaming provider\<close>

text \<open>
  The bodies the streaming provider sends are JSON objects of which the service reads
  \<^verbatim>\<open>access_token\<close> and \<^verbatim>\<open>data\<close>; \<^verbatim>\<open>data\<close>, where present, is an array of objects of which it
  reads \<^verbatim>\<open>id\<close> (here \<open>id_t\<close>) and \<^verbatim>\<open>viewer_count\<close>. A property that is missing reads as
  \<open>Undefined\<close>; a missing \<^verbatim>\<open>data\<close> is \<open>None\<close>.
\<close>

record entry =
  id_t :: jsval
  viewer_count :: jsval

record body =
  access_token :: jsval
  data :: "entry list option"

text \<open>The three requests of the service to the streaming provider: the token exchange, the
  search by name (with the bearer token) and the list of streams of a game id.\<close>

datatype request =
    TokenRequest
  | GamesRequest jsval jsval
  | StreamsRequest jsval jsval

text \<open>What the network answers to each request of one resolution: each request is settled,
  by a response or by an error. (The source sets no timeout; a call whose request is never
  settled does not return, which the schedules of \<^verbatim>\<open>fetchTrendingGames\<close> below account for.)\<close>

type_synonym env = "request \<Rightarrow> body reply"

text \<open>
  The module's state is the variable \<^verbatim>\<open>twitchToken\<close>. The list \<open>requests\<close> is not in the
  source: it records, oldest first, the requests sent to the streaming provider, so that
  statements about network calls can be made.
\<close>

record state =
  twitchToken :: jsval
  requests :: "request list"

definition initial :: state where
  "initial = \<lparr>twitchToken = Null, requests = []\<rparr>"

definition send :: "request \<Rightarrow> state \<Rightarrow> state" where
  "send r st = st\<lparr>requests := requests st @ [r]\<rparr>"

definition token_requests :: "state \<Rightarrow> nat" where
  "token_requests st = count_list (requests st) TokenRequest"

subsection \<open>getTwitchAccessToken\<close>

text \<open>
  The \<^verbatim>\<open>catch\<close> block of \<^verbatim>\<open>getTwitchAccessToken\<close> first evaluates
  \<^verbatim>\<open>error.response.data\<close> for its log line and then throws
  \<^verbatim>\<open>new Error('Could not get Twitch token')\<close>. When the caught error has no \<^verbatim>\<open>response\<close>,
  the property access itself throws a \<^verbatim>\<open>TypeError\<close>, and that is what leaves the function.
\<close>

fun token_catch :: "exn \<Rightarrow> exn" where
  "token_catch (AxiosError ErrorStatus) = Error ''Could not get Twitch token''"
| "token_catch error = TypeError"

definition getTwitchAccessToken :: "env \<Rightarrow> state \<Rightarrow> (exn + jsval) \<times> state" where
  "getTwitchAccessToken env st =
     (if truthy (twitchToken st) then (Inr (twitchToken st), st)
      else
        let st1 = send TokenRequest st in
        (case env TokenRequest of
           Rejected f \<Rightarrow> (Inl (token_catch (AxiosError f)), st1)
         | Resolved response \<Rightarrow>
             (let st2 = st1\<lparr>twitchToken := access_token response\<rparr>
              in (Inr (twitchToken st2), st2))))"

subsection \<open>fetchLiveViewers\<close>

text \<open>The loop \<^verbatim>\<open>forEach(stream => { totalViewers += stream.viewer_count })\<close>.\<close>

fun sum_viewers :: "jsval \<Rightarrow> entry list \<Rightarrow> jsval" where
  "sum_viewers totalViewers [] = totalViewers"
| "sum_viewers totalViewers (stream # streams) =
     sum_viewers (js_add totalViewers (viewer_count stream)) streams"

text \<open>The body of the \<^verbatim>\<open>try\<close> block. Reading \<^verbatim>\<open>length\<close> or calling \<^verbatim>\<open>forEach\<close> on a
  missing \<^verbatim>\<open>data\<close> throws a \<^verbatim>\<open>TypeError\<close>.\<close>

definition fetchLiveViewers_try :: "env \<Rightarrow> jsval \<Rightarrow> state \<Rightarrow> (exn + jsval) \<times> state" where
  "fetchLiveViewers_try env gameName st =
     (case getTwitchAccessToken env st of
        (Inl error, st1) \<Rightarrow> (Inl error, st1)
      | (Inr token, st1) \<Rightarrow>
          (let st2 = send (GamesRequest gameName token) st1 in
           (case env (GamesRequest gameName token) of
              Rejected f \<Rightarrow> (Inl (AxiosError f), st2)
            | Resolved gameResponse \<Rightarrow>
                (case data gameResponse of
                   None \<Rightarrow> (Inl TypeError, st2)
                 | Some [] \<Rightarrow> (Inr (Num 0), st2)
                 | Some (game # others) \<Rightarrow>
                     (let gameId = id_t game;
                          st3 = send (StreamsRequest gameId token) st2
                      in (case env (StreamsRequest gameId token) of
                            Rejected f \<Rightarrow> (Inl (AxiosError f), st3)
                          | Resolved streamsResponse \<Rightarrow>
                              (case data streamsResponse of
                                 None \<Rightarrow> (Inl TypeError, st3)
                               | Some streams \<Rightarrow>
                                   (Inr (sum_viewers (Num 0) streams), st3))))))))"

text \<open>The whole function: the guard on the name, then the \<^verbatim>\<open>try\<close> block, whose \<^verbatim>\<open>catch\<close>
  logs the message of whatever was thrown and returns 0.\<close>

definition fetchLiveViewers :: "env \<Rightarrow> jsval \<Rightarrow> state \<Rightarrow> (exn + jsval) \<times> state" where
  "fetchLiveViewers env gameName st =
     (if \<not> truthy gameName then (Inr (Num 0), st)
      else (case fetchLiveViewers_try env gameName st of
              (Inl error, st') \<Rightarrow> (Inr (Num 0), st')
            | (Inr totalViewers, st') \<Rightarrow> (Inr totalViewers, st')))"

section \<open>The catalog provider\<close>

text \<open>
  The catalog provider answers with a body of which the service reads \<^verbatim>\<open>results\<close>, an array
  of games or of platforms. Of a game it reads \<^verbatim>\<open>id\<close>, \<^verbatim>\<open>name\<close>, \<^verbatim>\<open>background_image\<close> and
  \<^verbatim>\<open>genres\<close> (here \<open>id_g\<close>, \<open>name_g\<close>), of a genre \<^verbatim>\<open>name\<close> (here \<open>name_genre\<close>), of a
  platform \<^verbatim>\<open>slug\<close>, \<^verbatim>\<open>name\<close> and \<^verbatim>\<open>games_count\<close> (here \<open>name_p\<close>).
\<close>

record genre =
  name_genre :: jsval

record game =
  id_g :: jsval
  name_g :: jsval
  background_image :: jsval
  genres :: "genre list option"

record platform =
  slug :: jsval
  name_p :: jsval
  games_count :: jsval

record 'a page =
  results :: "'a list option"

text \<open>The records the service returns: \<^verbatim>\<open>{id, name, image, liveViewers}\<close> for a trending
  game and \<^verbatim>\<open>{id, label, value}\<close> for a genre or a platform.\<close>

record trending =
  id_r :: jsval
  name_r :: jsval
  image_r :: jsval
  liveViewers :: jsval

record stat =
  id_s :: jsval
  label :: jsval
  value_s :: jsval

subsection \<open>fetchPlatformPerformance\<close>

definition fetchPlatformPerformance :: "platform page reply \<Rightarrow> exn + stat list" where
  "fetchPlatformPerformance response =
     (case response of
        Rejected f \<Rightarrow> Inl (AxiosError f)
      | Resolved page \<Rightarrow>
          (case results page of
             None \<Rightarrow> Inl TypeError
           | Some platforms \<Rightarrow>
               Inr (map (\<lambda>platform. \<lparr>id_s = slug platform,
                                      label = name_p platform,
                                      value_s = games_count platform\<rparr>) platforms)))"

subsection \<open>fetchGenreTrends\<close>

text \<open>
  \<^verbatim>\<open>genreCounts\<close> is a plain object created by \<^verbatim>\<open>{}\<close>: its own properties, in the order of
  their creation, with numbers as values, and \<^verbatim>\<open>Object.prototype\<close> behind them. Reading
  \<^verbatim>\<open>genreCounts[key]\<close> finds an own property first and an inherited one next.
\<close>

type_synonym object = "(string \<times> number) list"

definition object_prototype_keys :: "string list" where
  "object_prototype_keys =
     [''constructor'', ''__defineGetter__'', ''__defineSetter__'', ''hasOwnProperty'',
      ''__lookupGetter__'', ''__lookupSetter__'', ''isPrototypeOf'', ''propertyIsEnumerable'',
      ''toString'', ''valueOf'', ''__proto__'', ''toLocaleString'']"

datatype property = Own number | Inherited | Missing

definition get_property :: "object \<Rightarrow> string \<Rightarrow> property" where
  "get_property obj key =
     (case map_of obj key of
        Some n \<Rightarrow> Own n
      | None \<Rightarrow> if key \<in> set object_prototype_keys then Inherited else Missing)"

text \<open>
  The body of the inner \<^verbatim>\<open>forEach\<close>. An own count that is truthy is incremented; a missing
  or falsy one is set to 1. An inherited property is a function or an object, which is truthy:
  \<^verbatim>\<open>++\<close> turns it into \<^verbatim>\<open>NaN\<close> and stores that as an own property, except under
  \<^verbatim>\<open>__proto__\<close>, whose setter ignores a number.
\<close>

definition count_genre :: "object \<Rightarrow> string \<Rightarrow> object" where
  "count_genre genreCounts key =
     (case get_property genreCounts key of
        Own n \<Rightarrow>
          if truthy (of_number n) then AList.update key (add n (Finite 1)) genreCounts
          else AList.update key (Finite 1) genreCounts
      | Inherited \<Rightarrow>
          if key = ''__proto__'' then genreCounts else AList.update key NotNumber genreCounts
      | Missing \<Rightarrow> AList.update key (Finite 1) genreCounts)"

text \<open>The outer \<^verbatim>\<open>forEach\<close>; \<^verbatim>\<open>game.genres.forEach\<close> throws on a game without genres. The
  name of a genre becomes a property key by ToString.\<close>

fun count_genres :: "game list \<Rightarrow> object \<Rightarrow> exn + object" where
  "count_genres [] genreCounts = Inr genreCounts"
| "count_genres (game # games) genreCounts =
     (case genres game of
        None \<Rightarrow> Inl TypeError
      | Some gs \<Rightarrow>
          count_genres games (foldl count_genre genreCounts (map (to_string \<circ> name_genre) gs)))"

text \<open>
  \<^verbatim>\<open>Object.keys\<close> lists the keys that are array indices first, in ascending numeric order,
  and the other keys after them in the order of their creation.
\<close>

definition is_digit :: "char \<Rightarrow> bool" where
  "is_digit c = (48 \<le> (of_char c :: nat) \<and> (of_char c :: nat) \<le> 57)"

definition read_nat :: "string \<Rightarrow> int" where
  "read_nat s = foldl (\<lambda>n c. 10 * n + (of_char c - 48)) 0 s"

definition is_array_index :: "string \<Rightarrow> bool" where
  "is_array_index s =
     (s \<noteq> [] \<and> list_all is_digit s \<and> (length s = 1 \<or> hd s \<noteq> CHR ''0'')
      \<and> read_nat s < 4294967295)"

definition own_entries :: "object \<Rightarrow> (string \<times> number) list" where
  "own_entries obj =
     sort_key (read_nat \<circ> fst) (filter (is_array_index \<circ> fst) obj)
     @ filter (\<lambda>p. \<not> is_array_index (fst p)) obj"

text \<open>
  \<^verbatim>\<open>toLowerCase\<close>. On a string of ASCII characters it turns the letters \<open>A\<close> to \<open>Z\<close> into
  \<open>a\<close> to \<open>z\<close> and keeps every other character. On any other string it follows the case
  tables of Unicode, which are part of the runtime and not of the source: they are the
  parameter \<open>unicode\<close>. Then \<^verbatim>\<open>replace(' ', '-')\<close>, which replaces the first occurrence only.
\<close>

definition is_ascii :: "char \<Rightarrow> bool" where
  "is_ascii c = ((of_char c :: nat) < 128)"

definition lower_char :: "char \<Rightarrow> char" where
  "lower_char c =
     (case map_of (zip ''ABCDEFGHIJKLMNOPQRSTUVWXYZ'' ''abcdefghijklmnopqrstuvwxyz'') c of
        Some l \<Rightarrow> l
      | None \<Rightarrow> c)"

definition toLowerCase :: "(string \<Rightarrow> string) \<Rightarrow> string \<Rightarrow> string" where
  "toLowerCase unicode s = (if list_all is_ascii s then map lower_char s else unicode s)"

fun replace_first :: "char \<Rightarrow> char \<Rightarrow> string \<Rightarrow> string" where
  "replace_first a b [] = []"
| "replace_first a b (c # cs) = (if c = a then b # cs else c # replace_first a b cs)"

text \<open>One formatted entry, from a key of \<^verbatim>\<open>genreCounts\<close> and the value stored under it.\<close>

definition format_genre :: "(string \<Rightarrow> string) \<Rightarrow> string \<times> number \<Rightarrow> stat" where
  "format_genre unicode p =
     \<lparr>id_s = Str (replace_first CHR '' '' CHR ''-'' (toLowerCase unicode (fst p))),
      label = Str (fst p),
      value_s = of_number (snd p)\<rparr>"

definition fetchGenreTrends :: "(string \<Rightarrow> string) \<Rightarrow> game page reply \<Rightarrow> exn + stat list" where
  "fetchGenreTrends unicode response =
     (case response of
        Rejected f \<Rightarrow> Inl (AxiosError f)
      | Resolved page \<Rightarrow>
          (case results page of
             None \<Rightarrow> Inl TypeError
           | Some games \<Rightarrow>
               (case count_genres games [] of
                  Inl error \<Rightarrow> Inl error
                | Inr genreCounts \<Rightarrow>
                    Inr (map (format_genre unicode) (own_entries genreCounts)))))"

subsection \<open>fetchTrendingGames\<close>

text \<open>
  \<^verbatim>\<open>games.map(async (game) => ...)\<close> starts one resolution per game, each running without
  interruption up to its first pending request; \<^verbatim>\<open>Promise.all\<close> then waits for all of them.
  From there on the resolutions advance one at a time, each time the reply to a pending
  request arrives, in whatever order the replies arrive. A resolution is a task that is
  waiting for the reply to its token exchange (keeping the game name), to its search (keeping
  the name and the token) or to its list of streams (keeping the game id and the token), or
  that has returned its number of viewers.
\<close>

datatype task =
    AwaitToken jsval
  | AwaitGames jsval jsval
  | AwaitStreams jsval jsval
  | Done jsval

text \<open>\<^verbatim>\<open>fetchLiveViewers\<close> from its call to its first pending request: the guard, then
  \<^verbatim>\<open>getTwitchAccessToken\<close>, which returns a cached token (the search is sent next) or sends
  the token exchange.\<close>

definition launch :: "jsval \<Rightarrow> state \<Rightarrow> task \<times> state" where
  "launch gameName st =
     (if \<not> truthy gameName then (Done (Num 0), st)
      else if truthy (twitchToken st)
      then (AwaitGames gameName (twitchToken st),
            send (GamesRequest gameName (twitchToken st)) st)
      else (AwaitToken gameName, send TokenRequest st))"

text \<open>\<^verbatim>\<open>fetchLiveViewers\<close> from the arrival of a reply to its next pending request or to
  its return. A rejected request, and a \<^verbatim>\<open>TypeError\<close> on a body without \<^verbatim>\<open>data\<close>, end in
  the \<^verbatim>\<open>catch\<close> block, which returns 0.\<close>

fun resume :: "env \<Rightarrow> task \<Rightarrow> state \<Rightarrow> task \<times> state" where
  "resume env (AwaitToken gameName) st =
     (case env TokenRequest of
        Rejected f \<Rightarrow> (Done (Num 0), st)
      | Resolved response \<Rightarrow>
          (let st2 = st\<lparr>twitchToken := access_token response\<rparr>;
               token = twitchToken st2
           in (AwaitGames gameName token, send (GamesRequest gameName token) st2)))"
| "resume env (AwaitGames gameName token) st =
     (case env (GamesRequest gameName token) of
        Rejected f \<Rightarrow> (Done (Num 0), st)
      | Resolved gameResponse \<Rightarrow>
          (case data gameResponse of
             None \<Rightarrow> (Done (Num 0), st)
           | Some [] \<Rightarrow> (Done (Num 0), st)
           | Some (game # others) \<Rightarrow>
               (AwaitStreams (id_t game) token, send (StreamsRequest (id_t game) token) st)))"
| "resume env (AwaitStreams gameId token) st =
     (case env (StreamsRequest gameId token) of
        Rejected f \<Rightarrow> (Done (Num 0), st)
      | Resolved streamsResponse \<Rightarrow>
          (case data streamsResponse of
             None \<Rightarrow> (Done (Num 0), st)
           | Some streams \<Rightarrow> (Done (sum_viewers (Num 0) streams), st)))"
| "resume env (Done totalViewers) st = (Done totalViewers, st)"

text \<open>The calls of \<^verbatim>\<open>games.map\<close>, in the order of the array.\<close>

fun launch_all :: "jsval list \<Rightarrow> state \<Rightarrow> task list \<times> state" where
  "launch_all [] st = ([], st)"
| "launch_all (gameName # gameNames) st =
     (case launch gameName st of
        (t, st1) \<Rightarrow> (case launch_all gameNames st1 of (ts, st2) \<Rightarrow> (t # ts, st2)))"

text \<open>
  The arrival of a reply for the task at position \<open>k\<close>; \<open>envs k\<close> is what the network answers
  to the requests of that task. A schedule is the list of the positions whose replies arrive,
  in the order of their arrival; a position outside the array, or of a task that has returned,
  changes nothing.
\<close>

definition deliver :: "(nat \<Rightarrow> env) \<Rightarrow> nat \<Rightarrow> task list \<times> state \<Rightarrow> task list \<times> state" where
  "deliver envs k c =
     (case c of (ts, st) \<Rightarrow>
        if k < length ts
        then (case resume (envs k) (ts ! k) st of (t, st') \<Rightarrow> (ts[k := t], st'))
        else (ts, st))"

fun run :: "(nat \<Rightarrow> env) \<Rightarrow> nat list \<Rightarrow> task list \<times> state \<Rightarrow> task list \<times> state" where
  "run envs [] c = c"
| "run envs (k # schedule) c = run envs schedule (deliver envs k c)"

text \<open>\<^verbatim>\<open>Promise.all\<close> resolves, with the values in the order of the array, once every task
  has returned; until then it is pending (\<open>None\<close>).\<close>

fun promise_all :: "task list \<Rightarrow> jsval list option" where
  "promise_all [] = Some []"
| "promise_all (Done v # ts) = map_option ((#) v) (promise_all ts)"
| "promise_all (t # ts) = None"

text \<open>
  The whole function, for the reply to the catalog request, the replies to the requests of
  each resolution and a schedule. The result is \<open>None\<close> when the schedule ends with a
  resolution still pending: the source sets no timeout, and the function does not return then.
\<close>

definition fetchTrendingGames ::
  "game page reply \<Rightarrow> (nat \<Rightarrow> env) \<Rightarrow> nat list \<Rightarrow> state \<Rightarrow> (exn + trending list) option \<times> state"
where
  "fetchTrendingGames response envs schedule st =
     (case response of
        Rejected f \<Rightarrow> (Some (Inl (AxiosError f)), st)
      | Resolved page \<Rightarrow>
          (case results page of
             None \<Rightarrow> (Some (Inl TypeError), st)
           | Some games \<Rightarrow>
               (case run envs schedule (launch_all (map name_g games) st) of
                  (ts, st') \<Rightarrow>
                    (case promise_all ts of
                       None \<Rightarrow> (None, st')
                     | Some viewers \<Rightarrow>
                         (Some (Inr (map (\<lambda>(game, liveViewers).
                                            \<lparr>id_r = id_g game,
                                             name_r = name_g game,
                                             image_r = background_image game,
                                             liveViewers = liveViewers\<rparr>)
                                         (zip games viewers))), st')))))"

text \<open>Sequential calls of \<^verbatim>\<open>fetchLiveViewers\<close>, each with the replies it receives and its
  game name, threading the module's state.\<close>

fun fetchLiveViewers_calls ::
  "(env \<times> jsval) list \<Rightarrow> state \<Rightarrow> (exn + jsval) list \<times> state" where
  "fetchLiveViewers_calls [] st = ([], st)"
| "fetchLiveViewers_calls ((env, gameName) # calls) st =
     (case fetchLiveViewers env gameName st of
        (r, st1) \<Rightarrow> (case fetchLiveViewers_calls calls st1 of (rs, st2) \<Rightarrow> (r # rs, st2)))"

section \<open>Predicates of the statements\<close>




text \<open>Counts that are added without rounding, from a running total on: each count and each
  running total is of magnitude below \<open>2^53\<close>.\<close>

fun exact_sum :: "int \<Rightarrow> int list \<Rightarrow> bool" where
  "exact_sum running [] = True"
| "exact_sum running (c # cs) =
     (\<bar>c\<bar> < 2 ^ 53 \<and> \<bar>running + c\<bar> < 2 ^ 53 \<and> exact_sum (running + c) cs)"

text \<open>A network on which the token exchange succeeds with a token that is truthy (a
  non-empty string, for a token that is a string).\<close>

definition exchange_ok :: "env \<Rightarrow> bool" where
  "exchange_ok env =
     (case env TokenRequest of
        Rejected f \<Rightarrow> False
      | Resolved response \<Rightarrow> truthy (access_token response))"

text \<open>Sequential calls in which every token exchange that is attempted succeeds with a
  truthy token. A call attempts the exchange when its game name is truthy and the cache is
  falsy.\<close>

fun exchanges_ok :: "(env \<times> jsval) list \<Rightarrow> state \<Rightarrow> bool" where
  "exchanges_ok [] st = True"
| "exchanges_ok ((env, gameName) # calls) st =
     ((if truthy gameName \<and> \<not> truthy (twitchToken st) then exchange_ok env else True)
      \<and> exchanges_ok calls (snd (fetchLiveViewers env gameName st)))"

text \<open>The task part of \<open>resume\<close>, which does not depend on the state.\<close>

definition advance :: "env \<Rightarrow> task \<Rightarrow> task" where
  "advance env t = fst (resume env t initial)"

text \<open>The property keys that \<^verbatim>\<open>fetchGenreTrends\<close> counts, in the order of the loops.\<close>

definition genre_labels :: "game list \<Rightarrow> string list" where
  "genre_labels games =
     concat (map (\<lambda>game. case genres game of
                            None \<Rightarrow> []
                          | Some gs \<Rightarrow> map (to_string \<circ> name_genre) gs) games)"

text \<open>An object that holds, for each key of a list, the number of its occurrences in the
  list, and has no other property.\<close>

definition tallies :: "object \<Rightarrow> string list \<Rightarrow> bool" where
  "tallies c L \<longleftrightarrow>
     distinct (map fst c) \<and>
     (\<forall>k. map_of c k = (if k \<in> set L then Some (Finite (int (count_list L k))) else None))"

section \<open>Concrete providers\<close>

text \<open>A network that answers by the kind of the request, and the bodies and replies of the
  examples below.\<close>

definition provider :: "body reply \<Rightarrow> body reply \<Rightarrow> body reply \<Rightarrow> env" where
  "provider t g s r =
     (case r of TokenRequest \<Rightarrow> t | GamesRequest n k \<Rightarrow> g | StreamsRequest i k \<Rightarrow> s)"

definition token_body :: "jsval \<Rightarrow> body" where
  "token_body t = \<lparr>access_token = t, data = None\<rparr>"

definition data_body :: "entry list \<Rightarrow> body" where
  "data_body es = \<lparr>access_token = Undefined, data = Some es\<rparr>"

definition found :: "string \<Rightarrow> entry" where
  "found i = \<lparr>id_t = Str i, viewer_count = Undefined\<rparr>"

definition stream :: "jsval \<Rightarrow> entry" where
  "stream v = \<lparr>id_t = Undefined, viewer_count = v\<rparr>"

text \<open>A game with three streams of 120, 80 and 300 viewers.\<close>

definition valorant :: env where
  "valorant =
     provider (Resolved (token_body (Str ''abc''))) (Resolved (data_body [found ''516575'']))
       (Resolved (data_body [stream (Num 120), stream (Num 80), stream (Num 300)]))"

text \<open>A search without a match.\<close>

definition no_match :: env where
  "no_match =
     provider (Resolved (token_body (Str ''abc''))) (Resolved (data_body []))
       (Rejected NoResponse)"

text \<open>A game without a stream.\<close>

definition no_streams :: env where
  "no_streams =
     provider (Resolved (token_body (Str ''abc''))) (Resolved (data_body [found ''516575'']))
       (Resolved (data_body []))"


text \<open>Two streams whose counts, \<open>2^53\<close> and 1, have a sum that is not a double.\<close>

definition rounding :: env where
  "rounding =
     provider (Resolved (token_body (Str ''abc''))) (Resolved (data_body [found ''516575'']))
       (Resolved (data_body [stream (Num 9007199254740992), stream (Num 1)]))"

text \<open>No answer to any request, and an error status to every request.\<close>

definition unreachable :: env where
  "unreachable = (\<lambda>r. Rejected NoResponse)"

definition refused :: env where
  "refused = (\<lambda>r. Rejected ErrorStatus)"

text \<open>A token exchange that succeeds with an empty token, and one whose body has no
  \<^verbatim>\<open>access_token\<close>.\<close>

definition empty_token :: env where
  "empty_token =
     provider (Resolved (token_body (Str []))) (Rejected NoResponse) (Rejected NoResponse)"

definition absent_token :: env where
  "absent_token =
     provider (Resolved (data_body [])) (Rejected NoResponse) (Rejected NoResponse)"

section \<open>Concrete catalogs\<close>

text \<open>A game with one stream of \<open>n\<close> viewers; a network for each position of a catalog, with
  100 viewers at position 0, 200 at position 1 and so on; a catalog of three games, and the
  records expected for it.\<close>

definition streaming :: "int \<Rightarrow> env" where
  "streaming n =
     provider (Resolved (token_body (Str ''abc''))) (Resolved (data_body [found ''516575'']))
       (Resolved (data_body [stream (Num n)]))"

definition networks :: "nat \<Rightarrow> env" where
  "networks i = streaming (100 * (int i + 1))"

definition catalog :: "game list" where
  "catalog =
     [\<lparr>id_g = Num 1, name_g = Str ''A'', background_image = Str ''a.jpg'', genres = None\<rparr>,
      \<lparr>id_g = Num 2, name_g = Str ''B'', background_image = Str ''b.jpg'', genres = None\<rparr>,
      \<lparr>id_g = Num 3, name_g = Str ''C'', background_image = Str ''c.jpg'', genres = None\<rparr>]"

definition merged :: "int \<Rightarrow> int \<Rightarrow> int \<Rightarrow> trending list" where
  "merged a b c =
     [\<lparr>id_r = Num 1, name_r = Str ''A'', image_r = Str ''a.jpg'', liveViewers = Num a\<rparr>,
      \<lparr>id_r = Num 2, name_r = Str ''B'', image_r = Str ''b.jpg'', liveViewers = Num b\<rparr>,
      \<lparr>id_r = Num 3, name_r = Str ''C'', image_r = Str ''c.jpg'', liveViewers = Num c\<rparr>]"

text \<open>A game of the single genre named \<^verbatim>\<open>constructor\<close>.\<close>

definition constructor_game :: game where
  "constructor_game =
     \<lparr>id_g = Num 1, name_g = Str ''A'', background_image = Null,
      genres = Some [\<lparr>name_genre = Str ''constructor''\<rparr>]\<rparr>"

section \<open>The live viewers of one game\<close>

text \<open>An integer of magnitude below \<open>2^53\<close> is a double, and a sum of two such integers that
  is of magnitude below \<open>2^53\<close> is exact.\<close>

lemma double_safe [simp]: "\<bar>n\<bar> < 2 ^ 53 \<Longrightarrow> double n = Finite n"
  by (auto simp: double_def round53_def Let_def)

text \<open>Beyond \<open>2^53\<close> a sum is rounded, half way to the even neighbour, and a sum that rounds
  to \<open>2^1024\<close> or more is \<^verbatim>\<open>Infinity\<close>.\<close>

lemma bits_eq: "2 ^ k \<le> n \<Longrightarrow> n < 2 ^ Suc k \<Longrightarrow> bits n = Suc k"
proof (induction k arbitrary: n)
  case 0
  then have "n = 1" by simp
  then show ?case by simp
next
  case (Suc k)
  from Suc.prems have "2 ^ k \<le> n div 2" "n div 2 < 2 ^ Suc k" "n \<noteq> 0"
    by auto
  with Suc.IH [of "n div 2"] show ?case
    by (subst bits.simps) simp
qed

lemma double_rounds:
  "double 9007199254740993 = Finite 9007199254740992"
  "double 9007199254740995 = Finite 9007199254740996"
  "double (- 9007199254740993) = Finite (- 9007199254740992)"
  by (simp_all add: double_def round53_def)

lemma double_overflows: "double (10 ^ 308 + 10 ^ 308) = PosInfinity"
proof -
  have "bits (nat (10 ^ 308 + 10 ^ 308)) = Suc 1024"
    by (rule bits_eq) simp_all
  then show ?thesis
    by (simp add: double_def round53_def Let_def del: bits.simps)
qed

text \<open>The operator \<^verbatim>\<open>+\<close> on some operands.\<close>

lemma js_add_examples:
  "js_add (Num 9007199254740992) (Num 1) = Num 9007199254740992"
  "js_add (Num 120) Undefined = NaN"
  "js_add (Num 120) Null = Num 120"
  "js_add (Num 120) (Bool True) = Num 121"
  "js_add (Num 120) (Str ''80'') = Str ''12080''"
  "js_add Infinity MinusInfinity = NaN"
  by (simp_all add: js_add_def double_def round53_def show_magnitude_def digit_char_def)

text \<open>ToString of numbers: below \<open>2^53\<close> the decimal digits, beyond it the shortest decimal
  that denotes the double (\<open>2^64\<close> is 18446744073709551616).\<close>

lemma to_string_examples:
  "to_string (Num (- 1205)) = ''-1205''"
  "to_string (Num 18446744073709551616) = ''18446744073709552000''"
  by (simp_all add: double_def round53_def show_magnitude_def digit_char_def shortest_def
      candidate_def List.map_filter_simps upt_rec Let_def)

lemma js_add_Num [simp]:
  "\<bar>a\<bar> < 2 ^ 53 \<Longrightarrow> \<bar>b\<bar> < 2 ^ 53 \<Longrightarrow> \<bar>a + b\<bar> < 2 ^ 53 \<Longrightarrow> js_add (Num a) (Num b) = Num (a + b)"
  by (simp add: js_add_def)

lemma sum_viewers_Num:
  "map viewer_count streams = map Num counts \<Longrightarrow> \<bar>a\<bar> < 2 ^ 53 \<Longrightarrow> exact_sum a counts \<Longrightarrow>
   sum_viewers (Num a) streams = Num (a + sum_list counts)"
proof (induction streams arbitrary: a counts)
  case Nil
  then show ?case by simp
next
  case (Cons s streams)
  then obtain c cs where counts: "counts = c # cs" and c: "viewer_count s = Num c"
    and cs: "map viewer_count streams = map Num cs"
    by (cases counts) auto
  from Cons.prems(3) have safe: "\<bar>c\<bar> < 2 ^ 53" "\<bar>a + c\<bar> < 2 ^ 53" "exact_sum (a + c) cs"
    by (simp_all add: counts)
  from Cons.IH [OF cs safe(2,3)] Cons.prems(2) safe(1,2) show ?case
    by (simp add: counts c add.assoc)
qed



lemma fetchLiveViewers_Inr: "\<exists>v. fst (fetchLiveViewers env gameName st) = Inr v"
  by (simp add: fetchLiveViewers_def split: prod.splits sum.splits)

lemma fetchLiveViewers_failure:
  "fst (fetchLiveViewers_try env gameName st) = Inl e \<Longrightarrow> fst (fetchLiveViewers env gameName st) = Inr (Num 0)"
  by (auto simp: fetchLiveViewers_def split: prod.splits sum.splits)


lemmas eval_simps =
  provider_def token_body_def data_body_def found_def stream_def initial_def send_def
  getTwitchAccessToken_def fetchLiveViewers_try_def fetchLiveViewers_def Let_def
  token_requests_def




text \<open>
  Claim C2, as amended. With a falsy game name (empty or absent), \<^verbatim>\<open>fetchLiveViewers\<close>
  returns 0 and leaves the state as it was, the list of requests included: no request is
  sent. With a token and a search that returns no match, it returns 0. With a token and a
  search that returns matches, it asks for the streams of the \<^verbatim>\<open>id\<close> of the first match and,
  when their viewer counts are integers that add up without rounding (each count and each
  running total of magnitude below \<open>2^53\<close>), returns the sum of the counts; the requests added
  are that search and that list of streams.
\<close>

theorem fetchLiveViewers_algorithm:
  "(\<not> truthy gameName \<longrightarrow> fetchLiveViewers env gameName st = (Inr (Num 0), st)) \<and>
   (truthy gameName \<and> getTwitchAccessToken env st = (Inr token, st1) \<and>
    env (GamesRequest gameName token) = Resolved gameResponse \<and> data gameResponse = Some [] \<longrightarrow>
      fst (fetchLiveViewers env gameName st) = Inr (Num 0)) \<and>
   (truthy gameName \<and> getTwitchAccessToken env st = (Inr token, st1) \<and>
    env (GamesRequest gameName token) = Resolved gameResponse \<and>
    data gameResponse = Some (game # others) \<and>
    env (StreamsRequest (id_t game) token) = Resolved streamsResponse \<and>
    data streamsResponse = Some streams \<and> map viewer_count streams = map Num counts \<and>
    exact_sum 0 counts \<longrightarrow>
      fetchLiveViewers env gameName st =
        (Inr (Num (sum_list counts)),
         send (StreamsRequest (id_t game) token) (send (GamesRequest gameName token) st1)))"
  by (simp add: fetchLiveViewers_def fetchLiveViewers_try_def Let_def sum_viewers_Num)

text \<open>C2 at an empty name, at a search without a match, at an empty list of streams, and at
  the viewer counts 120, 80 and 300, whose sum is 500.\<close>

theorem fetchLiveViewers_algorithm_witness:
  "fetchLiveViewers valorant (Str []) initial = (Inr (Num 0), initial) \<and>
   fst (fetchLiveViewers no_match (Str ''Valorant'') initial) = Inr (Num 0) \<and>
   fst (fetchLiveViewers no_streams (Str ''Valorant'') initial) = Inr (Num 0) \<and>
   fetchLiveViewers valorant (Str ''Valorant'') initial =
     (Inr (Num 500),
      \<lparr>twitchToken = Str ''abc'',
       requests = [TokenRequest, GamesRequest (Str ''Valorant'') (Str ''abc''),
                   StreamsRequest (Str ''516575'') (Str ''abc'')]\<rparr>)"
proof -
  have token: "getTwitchAccessToken valorant initial =
      (Inr (Str ''abc''), \<lparr>twitchToken = Str ''abc'', requests = [TokenRequest]\<rparr>)"
    "getTwitchAccessToken no_match initial =
      (Inr (Str ''abc''), \<lparr>twitchToken = Str ''abc'', requests = [TokenRequest]\<rparr>)"
    "getTwitchAccessToken no_streams initial =
      (Inr (Str ''abc''), \<lparr>twitchToken = Str ''abc'', requests = [TokenRequest]\<rparr>)"
    by (simp_all add: eval_simps valorant_def no_match_def no_streams_def)
  have empty: "\<not> truthy (Str [])" and name: "truthy (Str ''Valorant'')"
    by simp_all
  have search0: "no_match (GamesRequest (Str ''Valorant'') (Str ''abc'')) = Resolved (data_body [])"
    "data (data_body []) = Some []"
    by (simp_all add: eval_simps no_match_def)
  have search: "valorant (GamesRequest (Str ''Valorant'') (Str ''abc'')) = Resolved (data_body [found ''516575''])"
    "data (data_body [found ''516575'']) = Some (found ''516575'' # [])"
    "valorant (StreamsRequest (id_t (found ''516575'')) (Str ''abc'')) =
       Resolved (data_body [stream (Num 120), stream (Num 80), stream (Num 300)])"
    "data (data_body [stream (Num 120), stream (Num 80), stream (Num 300)]) =
       Some [stream (Num 120), stream (Num 80), stream (Num 300)]"
    "map viewer_count [stream (Num 120), stream (Num 80), stream (Num 300)] = map Num [120, 80, 300]"
    "exact_sum 0 [120, 80, 300]"
    by (simp_all add: eval_simps valorant_def)
  have idle: "no_streams (GamesRequest (Str ''Valorant'') (Str ''abc'')) =
       Resolved (data_body [found ''516575''])"
    "no_streams (StreamsRequest (id_t (found ''516575'')) (Str ''abc'')) = Resolved (data_body [])"
    "map viewer_count [] = map Num []" "exact_sum 0 []"
    by (simp_all add: eval_simps no_streams_def)
  have a: "fetchLiveViewers valorant (Str []) initial = (Inr (Num 0), initial)"
    using fetchLiveViewers_algorithm [of "Str []" valorant initial] empty by simp
  have b: "fst (fetchLiveViewers no_match (Str ''Valorant'') initial) = Inr (Num 0)"
    using fetchLiveViewers_algorithm [of "Str ''Valorant''" no_match initial "Str ''abc''" _ "data_body []"]
      name token(2) search0 by simp
  have c: "fetchLiveViewers valorant (Str ''Valorant'') initial =
      (Inr (Num (sum_list [120, 80, 300])),
       send (StreamsRequest (id_t (found ''516575'')) (Str ''abc''))
         (send (GamesRequest (Str ''Valorant'') (Str ''abc''))
            \<lparr>twitchToken = Str ''abc'', requests = [TokenRequest]\<rparr>))"
    using fetchLiveViewers_algorithm [of "Str ''Valorant''" valorant initial "Str ''abc''" _
        "data_body [found ''516575'']" "found ''516575''" "[]"
        "data_body [stream (Num 120), stream (Num 80), stream (Num 300)]"
        "[stream (Num 120), stream (Num 80), stream (Num 300)]" "[120, 80, 300]"]
      name token(1) search by blast
  have d: "fst (fetchLiveViewers no_streams (Str ''Valorant'') initial) = Inr (Num (sum_list []))"
    using fetchLiveViewers_algorithm [of "Str ''Valorant''" no_streams initial "Str ''abc''" _
        "data_body [found ''516575'']" "found ''516575''" "[]" "data_body []" "[]" "[]"]
      name token(3) idle search(2) search0(2) by simp
  from a b c d show ?thesis
    by (simp add: send_def found_def)
qed

text \<open>
  Claim C2 as stated, for every list of streams, fails: the total is added in double
  arithmetic. With the counts \<open>2^53\<close> and 1, whose sum is not a double, \<^verbatim>\<open>fetchLiveViewers\<close>
  returns \<open>2^53\<close>.
\<close>

theorem fetchLiveViewers_rounded:
  "fst (fetchLiveViewers rounding (Str ''Valorant'') initial) = Inr (Num 9007199254740992) \<and>
   sum_list [9007199254740992, 1] = (9007199254740993 :: int)"
  by (simp add: eval_simps rounding_def js_add_def double_def round53_def)

section \<open>The token cache\<close>

lemma token_requests_send [simp]:
  "token_requests (send r st) = token_requests st + (if r = TokenRequest then 1 else 0)"
  by (simp add: token_requests_def send_def)

lemma twitchToken_send [simp]: "twitchToken (send r st) = twitchToken st"
  by (simp add: send_def)

lemma getTwitchAccessToken_cached:
  "truthy (twitchToken st) \<Longrightarrow> getTwitchAccessToken env st = (Inr (twitchToken st), st)"
  by (simp add: getTwitchAccessToken_def)

lemma getTwitchAccessToken_rejected:
  "\<not> truthy (twitchToken st) \<Longrightarrow> env TokenRequest = Rejected f \<Longrightarrow>
   getTwitchAccessToken env st = (Inl (token_catch (AxiosError f)), send TokenRequest st)"
  by (simp add: getTwitchAccessToken_def)

lemma getTwitchAccessToken_failure_keeps_cache:
  "getTwitchAccessToken env st = (Inl e, st') \<Longrightarrow> twitchToken st' = twitchToken st \<and> \<not> truthy (twitchToken st')"
  by (auto simp: getTwitchAccessToken_def Let_def split: if_splits reply.splits)

text \<open>
  Claim C8 states that a failing token exchange caches nothing and raises the error of
  \<^verbatim>\<open>getTwitchAccessToken\<close>, \<^verbatim>\<open>Error('Could not get Twitch token')\<close>. The cache does stay
  empty (\<open>getTwitchAccessToken_failure_keeps_cache\<close>), and the error is that one when the
  server answers with an error status. When no answer arrives, the \<^verbatim>\<open>catch\<close> block throws a
  \<^verbatim>\<open>TypeError\<close> from its log line before it reaches its \<^verbatim>\<open>throw\<close>.
\<close>

theorem getTwitchAccessToken_no_response:
  "getTwitchAccessToken unreachable initial = (Inl TypeError, \<lparr>twitchToken = Null, requests = [TokenRequest]\<rparr>) \<and>
   getTwitchAccessToken refused initial =
     (Inl (Error ''Could not get Twitch token''), \<lparr>twitchToken = Null, requests = [TokenRequest]\<rparr>)"
  by (simp add: eval_simps unreachable_def refused_def)

text \<open>
  Claim C10. When the cache is empty and the token exchange succeeds with a body whose
  \<^verbatim>\<open>access_token\<close> is absent or the empty string, \<^verbatim>\<open>getTwitchAccessToken\<close> returns that
  value and stores it; the cache is still falsy, one token request has been sent, and the
  next call, whatever the network then answers, sends a token request again.
\<close>

theorem getTwitchAccessToken_falsy_token:
  "\<not> truthy (twitchToken st) \<and> env TokenRequest = Resolved response \<and>
   (access_token response = Undefined \<or> access_token response = Str []) \<longrightarrow>
     (case getTwitchAccessToken env st of
        (r, st') \<Rightarrow>
          r = Inr (access_token response) \<and> twitchToken st' = access_token response \<and>
          \<not> truthy (twitchToken st') \<and> requests st' = requests st @ [TokenRequest] \<and>
          requests (snd (getTwitchAccessToken env' st')) = requests st @ [TokenRequest, TokenRequest])"
  by (auto simp: getTwitchAccessToken_def Let_def send_def split: reply.splits)

text \<open>C10 at a body without \<^verbatim>\<open>access_token\<close> and at an empty token: two sequential
  calls exchange the token twice, though each exchange succeeds.\<close>

theorem getTwitchAccessToken_falsy_token_witness:
  "getTwitchAccessToken absent_token initial =
     (Inr Undefined, \<lparr>twitchToken = Undefined, requests = [TokenRequest]\<rparr>) \<and>
   getTwitchAccessToken empty_token initial =
     (Inr (Str []), \<lparr>twitchToken = Str [], requests = [TokenRequest]\<rparr>) \<and>
   requests (snd (getTwitchAccessToken empty_token
                    (snd (getTwitchAccessToken empty_token initial)))) = [TokenRequest, TokenRequest] \<and>
   token_requests (snd (fetchLiveViewers_calls
                          [(empty_token, Str ''Valorant''), (empty_token, Str ''Dota 2'')] initial)) = 2"
proof -
  have h: "\<not> truthy (twitchToken initial)"
    "absent_token TokenRequest = Resolved (data_body [])" "access_token (data_body []) = Undefined"
    "empty_token TokenRequest = Resolved (token_body (Str []))" "access_token (token_body (Str [])) = Str []"
    by (simp_all add: eval_simps absent_token_def empty_token_def)
  from h getTwitchAccessToken_falsy_token [of initial absent_token "data_body []" empty_token]
  have a: "getTwitchAccessToken absent_token initial =
     (Inr Undefined, \<lparr>twitchToken = Undefined, requests = [TokenRequest]\<rparr>)"
    by (auto simp: initial_def split: prod.splits)
  from h getTwitchAccessToken_falsy_token [of initial empty_token "token_body (Str [])" empty_token]
  have b: "getTwitchAccessToken empty_token initial =
     (Inr (Str []), \<lparr>twitchToken = Str [], requests = [TokenRequest]\<rparr>) \<and>
     requests (snd (getTwitchAccessToken empty_token
                    (snd (getTwitchAccessToken empty_token initial)))) = [TokenRequest, TokenRequest]"
    by (auto simp: initial_def split: prod.splits)
  have c: "token_requests (snd (fetchLiveViewers_calls
                          [(empty_token, Str ''Valorant''), (empty_token, Str ''Dota 2'')] initial)) = 2"
    by (simp add: eval_simps empty_token_def)
  from a b c show ?thesis by blast
qed

text \<open>The token requests of sequential calls.\<close>

lemma token_requests_twitchToken [simp]:
  "token_requests (st\<lparr>twitchToken := t\<rparr>) = token_requests st"
  by (simp add: token_requests_def)

lemma fetchLiveViewers_try_requests:
  "token_requests (snd (fetchLiveViewers_try env gameName st)) =
     token_requests (snd (getTwitchAccessToken env st)) \<and>
   twitchToken (snd (fetchLiveViewers_try env gameName st)) =
     twitchToken (snd (getTwitchAccessToken env st))"
  by (simp add: fetchLiveViewers_try_def Let_def
      split: prod.splits sum.splits reply.splits option.splits list.splits)

lemma fetchLiveViewers_state:
  "snd (fetchLiveViewers env gameName st) =
     (if truthy gameName then snd (fetchLiveViewers_try env gameName st) else st)"
  by (simp add: fetchLiveViewers_def split: prod.splits sum.splits)

lemma getTwitchAccessToken_ok:
  "exchange_ok env \<Longrightarrow> \<not> truthy (twitchToken st) \<Longrightarrow>
   truthy (twitchToken (snd (getTwitchAccessToken env st))) \<and>
   token_requests (snd (getTwitchAccessToken env st)) = token_requests st + 1"
  by (auto simp: exchange_ok_def getTwitchAccessToken_def Let_def split: reply.splits)

lemma fetchLiveViewers_cached:
  "truthy (twitchToken st) \<Longrightarrow>
   truthy (twitchToken (snd (fetchLiveViewers env gameName st))) \<and>
   token_requests (snd (fetchLiveViewers env gameName st)) = token_requests st"
  by (simp add: fetchLiveViewers_state fetchLiveViewers_try_requests getTwitchAccessToken_cached)

lemma fetchLiveViewers_exchange:
  "exchange_ok env \<Longrightarrow> \<not> truthy (twitchToken st) \<Longrightarrow>
   snd (fetchLiveViewers env gameName st) = st \<or>
   truthy (twitchToken (snd (fetchLiveViewers env gameName st))) \<and>
   token_requests (snd (fetchLiveViewers env gameName st)) = token_requests st + 1"
  by (simp add: fetchLiveViewers_state fetchLiveViewers_try_requests getTwitchAccessToken_ok)

lemma fetchLiveViewers_calls_state:
  "snd (fetchLiveViewers_calls (c # calls) st) =
     snd (fetchLiveViewers_calls calls (snd (fetchLiveViewers (fst c) (snd c) st)))"
  by (cases c) (simp split: prod.splits)

lemma calls_cached:
  "truthy (twitchToken st) \<Longrightarrow>
   token_requests (snd (fetchLiveViewers_calls calls st)) = token_requests st"
proof (induction calls arbitrary: st)
  case Nil
  then show ?case by simp
next
  case (Cons c calls)
  from fetchLiveViewers_cached [OF Cons.prems, of "fst c" "snd c"] Cons.IH
  show ?case
    by (simp add: fetchLiveViewers_calls_state)
qed

lemma calls_at_most_once:
  "exchanges_ok calls st \<Longrightarrow>
   token_requests (snd (fetchLiveViewers_calls calls st)) \<le> token_requests st + 1"
proof (induction calls arbitrary: st)
  case Nil
  then show ?case by simp
next
  case (Cons c calls)
  obtain env gameName where c: "c = (env, gameName)"
    by (cases c)
  let ?st1 = "snd (fetchLiveViewers env gameName st)"
  let ?final = "snd (fetchLiveViewers_calls calls ?st1)"
  have step: "snd (fetchLiveViewers_calls (c # calls) st) = ?final"
    unfolding c by (simp add: split_beta)
  from Cons.prems have attempt: "truthy gameName \<and> \<not> truthy (twitchToken st) \<longrightarrow> exchange_ok env"
    and rest: "exchanges_ok calls ?st1"
    by (simp_all add: c)
  have "token_requests ?final \<le> token_requests st + 1"
  proof (cases "truthy (twitchToken st)")
    case True
    from fetchLiveViewers_cached [OF True, of env gameName]
    have "truthy (twitchToken ?st1)" "token_requests ?st1 = token_requests st"
      by simp_all
    with calls_cached [of ?st1 calls] show ?thesis
      by simp
  next
    case False
    show ?thesis
    proof (cases "truthy gameName")
      case True
      with attempt False have ok: "exchange_ok env"
        by simp
      from fetchLiveViewers_exchange [OF ok False, of gameName]
      show ?thesis
      proof
        assume same: "?st1 = st"
        from Cons.IH [OF rest] show ?thesis
          by (simp add: same)
      next
        assume "truthy (twitchToken ?st1) \<and> token_requests ?st1 = token_requests st + 1"
        with calls_cached [of ?st1 calls] show ?thesis
          by simp
      qed
    next
      case False
      then have same: "?st1 = st"
        by (simp add: fetchLiveViewers_state)
      from Cons.IH [OF rest] show ?thesis
        by (simp add: same)
    qed
  qed
  then show ?case
    by (simp only: step)
qed

text \<open>
  Claim C4, as amended. With a truthy token in the cache, \<^verbatim>\<open>getTwitchAccessToken\<close> returns
  it and leaves the state as it was: no request is sent. Consequently, across any sequence of
  sequential calls of \<^verbatim>\<open>fetchLiveViewers\<close> in which every token exchange that is attempted
  succeeds with a non-empty token, at most one token request is sent.
\<close>

theorem token_exchange_at_most_once:
  "(truthy (twitchToken st) \<longrightarrow> getTwitchAccessToken env st = (Inr (twitchToken st), st)) \<and>
   (exchanges_ok calls st \<longrightarrow>
      token_requests (snd (fetchLiveViewers_calls calls st)) \<le> token_requests st + 1)"
  using calls_at_most_once [of calls st] by (simp add: getTwitchAccessToken_cached)

text \<open>C4 at a cached token, and at three sequential calls from the initial state of which the
  first exchanges the token; the networks of the later calls would refuse the exchange, which
  they do not attempt.\<close>

theorem token_exchange_at_most_once_witness:
  "truthy (twitchToken \<lparr>twitchToken = Str ''abc'', requests = [TokenRequest]\<rparr>) \<and>
   getTwitchAccessToken unreachable \<lparr>twitchToken = Str ''abc'', requests = [TokenRequest]\<rparr> =
     (Inr (Str ''abc''), \<lparr>twitchToken = Str ''abc'', requests = [TokenRequest]\<rparr>) \<and>
   exchanges_ok
     [(valorant, Str ''Valorant''), (refused, Str ''Dota 2''), (unreachable, Str ''Apex'')]
     initial \<and>
   token_requests (snd (fetchLiveViewers_calls
      [(valorant, Str ''Valorant''), (refused, Str ''Dota 2''), (unreachable, Str ''Apex'')]
      initial)) \<le> 1"
proof -
  have cached: "truthy (twitchToken \<lparr>twitchToken = Str ''abc'', requests = [TokenRequest]\<rparr>)"
    by simp
  have ok: "exchanges_ok
     [(valorant, Str ''Valorant''), (refused, Str ''Dota 2''), (unreachable, Str ''Apex'')]
     initial"
    by (simp add: eval_simps valorant_def refused_def unreachable_def exchange_ok_def)
  have start: "token_requests initial = 0"
    by (simp add: eval_simps)
  from cached ok start
    token_exchange_at_most_once [of "\<lparr>twitchToken = Str ''abc'', requests = [TokenRequest]\<rparr>"
      unreachable
      "[(valorant, Str ''Valorant''), (refused, Str ''Dota 2''), (unreachable, Str ''Apex'')]"]
    token_exchange_at_most_once [of initial unreachable
      "[(valorant, Str ''Valorant''), (refused, Str ''Dota 2''), (unreachable, Str ''Apex'')]"]
  show ?thesis by simp
qed

text \<open>
  Claim C4 as stated, for any sequence of calls, fails: a token exchange that fails caches
  nothing, so each of two sequential calls sends its own token request.
\<close>

theorem token_exchange_repeated:
  "token_requests (snd (fetchLiveViewers_calls
      [(refused, Str ''Valorant''), (refused, Str ''Valorant'')] initial)) = 2"
  by (simp add: eval_simps refused_def)

section \<open>Concurrent resolutions\<close>

text \<open>
  The tasks of a run do not depend on one another: the task part of \<open>resume\<close> does not read
  the state, and \<open>launch\<close> only reads the cached token, which no launch changes. After a
  schedule, the task at position \<open>i\<close> has therefore advanced as many times as \<open>i\<close> occurs in
  the schedule.
\<close>

lemma resume_task: "fst (resume env t st) = advance env t"
  by (cases t) (simp_all add: advance_def Let_def split: reply.splits option.splits list.splits)

lemma advance_Done [simp]: "advance env (Done v) = Done v"
  by (simp add: advance_def)

lemma funpow_advance_Done [simp]: "(advance env ^^ n) (Done v) = Done v"
  by (induction n) simp_all

lemma launch_task:
  "fst (launch gameName st) =
     (if \<not> truthy gameName then Done (Num 0)
      else if truthy (twitchToken st) then AwaitGames gameName (twitchToken st)
      else AwaitToken gameName)"
  by (simp add: launch_def)

lemma launch_twitchToken: "twitchToken (snd (launch gameName st)) = twitchToken st"
  by (simp add: launch_def)

lemma launch_all_tasks: "fst (launch_all gameNames st) = map (\<lambda>n. fst (launch n st)) gameNames"
proof (induction gameNames arbitrary: st)
  case Nil
  then show ?case by simp
next
  case (Cons n gameNames)
  have "fst (launch m (snd (launch n st))) = fst (launch m st)" for m
    by (simp add: launch_task launch_twitchToken)
  with Cons.IH [of "snd (launch n st)"] show ?case
    by (simp add: split_beta)
qed

lemma deliver_tasks:
  "fst (deliver envs k (ts, st)) =
     (if k < length ts then ts[k := advance (envs k) (ts ! k)] else ts)"
  using resume_task [of "envs k" "ts ! k" st]
  by (simp add: deliver_def split_beta)

lemma run_tasks:
  "fst (run envs schedule (ts, st)) =
     map (\<lambda>i. (advance (envs i) ^^ count_list schedule i) (ts ! i)) [0..<length ts]"
proof (induction schedule arbitrary: ts st)
  case Nil
  show ?case by (simp add: map_nth)
next
  case (Cons k schedule)
  obtain ts' st' where d: "deliver envs k (ts, st) = (ts', st')"
    by (cases "deliver envs k (ts, st)")
  from deliver_tasks [of envs k ts st] d
  have ts': "ts' = (if k < length ts then ts[k := advance (envs k) (ts ! k)] else ts)"
    by simp
  then have len: "length ts' = length ts"
    by simp
  have step: "(advance (envs i) ^^ count_list schedule i) (ts' ! i) =
      (advance (envs i) ^^ count_list (k # schedule) i) (ts ! i)" if "i < length ts" for i
  proof (cases "i = k")
    case True
    with that ts' show ?thesis
      by (simp add: funpow_swap1)
  next
    case False
    with that ts' show ?thesis
      by simp
  qed
  have "fst (run envs (k # schedule) (ts, st)) = fst (run envs schedule (ts', st'))"
    by (simp add: d)
  also have "\<dots> = map (\<lambda>i. (advance (envs i) ^^ count_list schedule i) (ts' ! i)) [0..<length ts']"
    by (rule Cons.IH)
  also have "\<dots> = map (\<lambda>i. (advance (envs i) ^^ count_list (k # schedule) i) (ts ! i)) [0..<length ts]"
    using step by (simp add: len)
  finally show ?case .
qed

lemma task_three_replies:
  "fst (fetchLiveViewers env gameName st) = Inr v \<Longrightarrow>
   advance env (advance env (advance env (fst (launch gameName st)))) = Done v"
  by (auto simp: launch_task advance_def fetchLiveViewers_def fetchLiveViewers_try_def
      getTwitchAccessToken_def Let_def
      split: if_splits prod.splits sum.splits reply.splits option.splits list.splits)

text \<open>
  A task is \<^verbatim>\<open>fetchLiveViewers\<close> cut at its requests: alone, and given its three replies, it
  returns the value and leaves the state that the function does.
\<close>

lemma single_resolution:
  "fetchLiveViewers env gameName st = (Inr v, st') \<Longrightarrow>
   run (\<lambda>i. env) [0, 0, 0] (launch_all [gameName] st) = ([Done v], st')"
  by (auto simp: launch_def deliver_def fetchLiveViewers_def fetchLiveViewers_try_def
      getTwitchAccessToken_def Let_def
      split: if_splits prod.splits sum.splits reply.splits option.splits list.splits)

text \<open>A task has returned after three replies at most, and a task that has returned holds the
  value of \<^verbatim>\<open>fetchLiveViewers\<close> on the state in which the run was launched.\<close>

lemma task_settles:
  assumes "3 \<le> n" and "fst (fetchLiveViewers env gameName st) = Inr v"
  shows "(advance env ^^ n) (fst (launch gameName st)) = Done v"
proof -
  from assms(1) obtain m where n: "n = m + 3"
    by (metis add.commute le_Suc_ex)
  have "(advance env ^^ 3) (fst (launch gameName st)) = Done v"
    using task_three_replies [OF assms(2)] by (simp add: eval_nat_numeral)
  then show ?thesis
    by (simp add: n funpow_add)
qed

lemma task_value:
  assumes "(advance env ^^ n) (fst (launch gameName st)) = Done v"
  shows "fst (fetchLiveViewers env gameName st) = Inr v"
proof -
  obtain w where w: "fst (fetchLiveViewers env gameName st) = Inr w"
    using fetchLiveViewers_Inr by blast
  have "(advance env ^^ (3 + n)) (fst (launch gameName st)) = Done v"
    using assms by (simp only: funpow_add o_apply funpow_advance_Done)
  moreover have "(advance env ^^ (3 + n)) (fst (launch gameName st)) = Done w"
    using w by (intro task_settles) simp_all
  ultimately show ?thesis
    using w by simp
qed

lemma promise_all_Some: "promise_all ts = Some vs \<longleftrightarrow> ts = map Done vs"
proof (induction ts arbitrary: vs)
  case Nil
  then show ?case by auto
next
  case (Cons t ts)
  then show ?case
    by (cases t) auto
qed

text \<open>The tasks of \<^verbatim>\<open>fetchTrendingGames\<close> after a schedule.\<close>

lemma trending_tasks:
  "fst (run envs schedule (launch_all (map name_g games) st)) =
     map (\<lambda>i. (advance (envs i) ^^ count_list schedule i) (fst (launch (name_g (games ! i)) st)))
       [0..<length games]"
proof -
  obtain ts st1 where l: "launch_all (map name_g games) st = (ts, st1)"
    by (cases "launch_all (map name_g games) st")
  with launch_all_tasks [of "map name_g games" st]
  have ts: "ts = map (\<lambda>n. fst (launch n st)) (map name_g games)"
    by simp
  show ?thesis
    unfolding l run_tasks by (simp add: ts)
qed

lemma fetchTrendingGames_fst:
  "fst (fetchTrendingGames (Resolved \<lparr>results = Some games\<rparr>) envs schedule st) =
     map_option (\<lambda>viewers. Inr (map (\<lambda>(game, liveViewers).
                            \<lparr>id_r = id_g game, name_r = name_g game,
                             image_r = background_image game, liveViewers = liveViewers\<rparr>)
                       (zip games viewers)))
       (promise_all (fst (run envs schedule (launch_all (map name_g games) st))))"
  by (simp add: fetchTrendingGames_def split_beta split: option.splits)

lemma fetchTrendingGames_result:
  assumes "fst (fetchTrendingGames (Resolved \<lparr>results = Some games\<rparr>) envs schedule st) = Some r"
  shows "\<exists>out. r = Inr out \<and> length out = length games \<and>
           map id_r out = map id_g games \<and> map name_r out = map name_g games \<and>
           map image_r out = map background_image games \<and>
           (\<forall>i<length games.
              fst (fetchLiveViewers (envs i) (name_g (games ! i)) st) = Inr (liveViewers (out ! i)))"
proof -
  let ?ts = "fst (run envs schedule (launch_all (map name_g games) st))"
  from assms obtain viewers where all: "promise_all ?ts = Some viewers"
    and r: "r = Inr (map (\<lambda>(game, liveViewers).
                            \<lparr>id_r = id_g game, name_r = name_g game,
                             image_r = background_image game, liveViewers = liveViewers\<rparr>)
                       (zip games viewers))"
    unfolding fetchTrendingGames_fst by blast
  from all have settled: "?ts = map Done viewers"
    by (simp add: promise_all_Some)
  have "length ?ts = length games"
    by (simp add: trending_tasks)
  with settled have len: "length viewers = length games"
    by simp
  have viewers_nth: "fst (fetchLiveViewers (envs i) (name_g (games ! i)) st) = Inr (viewers ! i)"
    if "i < length games" for i
  proof -
    from settled that len have "?ts ! i = Done (viewers ! i)"
      by simp
    with that have "(advance (envs i) ^^ count_list schedule i) (fst (launch (name_g (games ! i)) st)) =
        Done (viewers ! i)"
      by (simp add: trending_tasks)
    then show ?thesis
      by (rule task_value)
  qed
  let ?out = "map (\<lambda>(game, liveViewers).
                            \<lparr>id_r = id_g game, name_r = name_g game,
                             image_r = background_image game, liveViewers = liveViewers\<rparr>)
                       (zip games viewers)"
  have "map id_r ?out = map (id_g \<circ> fst) (zip games viewers)"
    "map name_r ?out = map (name_g \<circ> fst) (zip games viewers)"
    "map image_r ?out = map (background_image \<circ> fst) (zip games viewers)"
    by (simp_all add: split_beta)
  with len have fields: "map id_r ?out = map id_g games" "map name_r ?out = map name_g games"
    "map image_r ?out = map background_image games"
    by (simp_all flip: map_map)
  have "liveViewers (?out ! i) = viewers ! i" if "i < length games" for i
    using that len by simp
  with viewers_nth r len fields show ?thesis
    by simp
qed

lemma fetchTrendingGames_returns:
  assumes "\<forall>i<length games. 3 \<le> count_list schedule i"
  shows "\<exists>out. fst (fetchTrendingGames (Resolved \<lparr>results = Some games\<rparr>) envs schedule st) =
           Some (Inr out)"
proof -
  let ?ts = "fst (run envs schedule (launch_all (map name_g games) st))"
  define viewers where
    "viewers = map (\<lambda>i. case fst (fetchLiveViewers (envs i) (name_g (games ! i)) st) of
                          Inr v \<Rightarrow> v | Inl e \<Rightarrow> Undefined) [0..<length games]"
  have "?ts = map Done viewers"
  proof (rule nth_equalityI)
    show "length ?ts = length (map Done viewers)"
      by (simp add: trending_tasks viewers_def)
  next
    fix i assume "i < length ?ts"
    then have i: "i < length games"
      by (simp add: trending_tasks)
    obtain v where v: "fst (fetchLiveViewers (envs i) (name_g (games ! i)) st) = Inr v"
      using fetchLiveViewers_Inr by blast
    from assms i have "3 \<le> count_list schedule i"
      by simp
    from task_settles [OF this v] i v show "?ts ! i = map Done viewers ! i"
      by (simp add: trending_tasks viewers_def)
  qed
  then have "promise_all ?ts = Some viewers"
    by (simp add: promise_all_Some)
  then show ?thesis
    by (simp add: fetchTrendingGames_fst)
qed

lemmas run_simps =
  fetchTrendingGames_def launch_def deliver_def

text \<open>
  Claim C3. For every catalog, every network and every order of arrival of the replies:
  once each resolution has received its replies (three at most), \<^verbatim>\<open>fetchTrendingGames\<close>
  returns a list; and a list it returns has one record per game of the catalog, in the order
  of the catalog, with the \<^verbatim>\<open>id\<close>, \<^verbatim>\<open>name\<close> and \<^verbatim>\<open>background_image\<close> of the game at the same
  position and, as \<^verbatim>\<open>liveViewers\<close>, what \<^verbatim>\<open>fetchLiveViewers\<close> returns for that game.
\<close>

theorem fetchTrendingGames_order:
  "((\<forall>i<length games. 3 \<le> count_list schedule i) \<longrightarrow>
      (\<exists>out. fst (fetchTrendingGames (Resolved \<lparr>results = Some games\<rparr>) envs schedule st) =
         Some (Inr out))) \<and>
   (fst (fetchTrendingGames (Resolved \<lparr>results = Some games\<rparr>) envs schedule st) = Some r \<longrightarrow>
      (\<exists>out. r = Inr out \<and> length out = length games \<and>
         map id_r out = map id_g games \<and> map name_r out = map name_g games \<and>
         map image_r out = map background_image games \<and>
         (\<forall>i<length games.
            fst (fetchLiveViewers (envs i) (name_g (games ! i)) st) = Inr (liveViewers (out ! i)))))"
  using fetchTrendingGames_returns [of games schedule envs st]
    fetchTrendingGames_result [of games envs schedule st r]
  by blast

text \<open>C3 at a catalog \<open>[A, B, C]\<close> whose resolutions complete in the order C, A, B: the
  records come in the order \<open>[A, B, C]\<close>.\<close>

theorem fetchTrendingGames_order_witness:
  "3 \<le> count_list [2, 2, 0, 2, 0, 1, 0, 1, 1] (0::nat) \<and>
   3 \<le> count_list [2, 2, 0, 2, 0, 1, 0, 1, 1] (1::nat) \<and>
   3 \<le> count_list [2, 2, 0, 2, 0, 1, 0, 1, 1] (2::nat) \<and>
   fst (fetchTrendingGames (Resolved \<lparr>results = Some catalog\<rparr>) networks
          [2, 2, 0, 2, 0, 1, 0, 1, 1] initial) = Some (Inr (merged 100 200 300)) \<and>
   map id_r (merged 100 200 300) = map id_g catalog \<and>
   map name_r (merged 100 200 300) = map name_g catalog \<and>
   map image_r (merged 100 200 300) = map background_image catalog"
proof -
  have fair: "\<forall>i<length catalog. 3 \<le> count_list [2, 2, 0, 2, 0, 1, 0, 1, 1] i"
    by (simp add: catalog_def less_Suc_eq)
  have result: "fst (fetchTrendingGames (Resolved \<lparr>results = Some catalog\<rparr>) networks
          [2, 2, 0, 2, 0, 1, 0, 1, 1] initial) = Some (Inr (merged 100 200 300))"
    by (simp add: run_simps eval_simps streaming_def networks_def catalog_def merged_def)
  from fair result
    fetchTrendingGames_order [of catalog "[2, 2, 0, 2, 0, 1, 0, 1, 1]" networks initial
      "Inr (merged 100 200 300)"]
  show ?thesis
    by simp
qed

lemma trending_eqI:
  fixes a b :: trending
  assumes "id_r a = id_r b" "name_r a = name_r b" "image_r a = image_r b"
    "liveViewers a = liveViewers b"
  shows "a = b"
  using assms by (cases a, cases b) simp

text \<open>
  Claim C6. Let the resolution of the game at position \<open>k\<close> run on a network on which its
  \<^verbatim>\<open>try\<close> block throws, the other resolutions running on the networks they had. Then
  \<^verbatim>\<open>fetchTrendingGames\<close> raises nothing: it returns a list once each resolution has received
  its replies, and a list it returns has \<^verbatim>\<open>liveViewers\<close> 0 at position \<open>k\<close> and, at every
  other position, the record of the run in which that resolution did not fail, whatever the
  order of arrival of the replies in either run.
\<close>

theorem fetchTrendingGames_isolation:
  "((\<forall>i<length games. 3 \<le> count_list schedule' i) \<longrightarrow>
      (\<exists>out'. fst (fetchTrendingGames (Resolved \<lparr>results = Some games\<rparr>) (envs(k := failing))
                    schedule' st) = Some (Inr out'))) \<and>
   (k < length games \<and>
    fst (fetchLiveViewers_try failing (name_g (games ! k)) st) = Inl e \<and>
    fst (fetchTrendingGames (Resolved \<lparr>results = Some games\<rparr>) envs schedule st) = Some r \<and>
    fst (fetchTrendingGames (Resolved \<lparr>results = Some games\<rparr>) (envs(k := failing))
           schedule' st) = Some r' \<longrightarrow>
      (\<exists>out out'. r = Inr out \<and> r' = Inr out' \<and> length out' = length games \<and>
         liveViewers (out' ! k) = Num 0 \<and>
         (\<forall>j<length games. j \<noteq> k \<longrightarrow> out' ! j = out ! j)))"
proof (intro conjI impI)
  assume "\<forall>i<length games. 3 \<le> count_list schedule' i"
  then show "\<exists>out'. fst (fetchTrendingGames (Resolved \<lparr>results = Some games\<rparr>) (envs(k := failing))
                    schedule' st) = Some (Inr out')"
    by (rule fetchTrendingGames_returns)
next
  assume a: "k < length games \<and>
    fst (fetchLiveViewers_try failing (name_g (games ! k)) st) = Inl e \<and>
    fst (fetchTrendingGames (Resolved \<lparr>results = Some games\<rparr>) envs schedule st) = Some r \<and>
    fst (fetchTrendingGames (Resolved \<lparr>results = Some games\<rparr>) (envs(k := failing))
           schedule' st) = Some r'"
  then have k: "k < length games"
    and thrown: "fst (fetchLiveViewers_try failing (name_g (games ! k)) st) = Inl e"
    by simp_all
  from a fetchTrendingGames_result [of games envs schedule st r]
  obtain out where out: "r = Inr out" "length out = length games"
    "map id_r out = map id_g games" "map name_r out = map name_g games"
    "map image_r out = map background_image games"
    "\<forall>i<length games.
       fst (fetchLiveViewers (envs i) (name_g (games ! i)) st) = Inr (liveViewers (out ! i))"
    by blast
  from a fetchTrendingGames_result [of games "envs(k := failing)" schedule' st r']
  obtain out' where out': "r' = Inr out'" "length out' = length games"
    "map id_r out' = map id_g games" "map name_r out' = map name_g games"
    "map image_r out' = map background_image games"
    "\<forall>i<length games.
       fst (fetchLiveViewers ((envs(k := failing)) i) (name_g (games ! i)) st) =
         Inr (liveViewers (out' ! i))"
    by blast
  from out'(6) k have "fst (fetchLiveViewers failing (name_g (games ! k)) st) =
      Inr (liveViewers (out' ! k))"
    by auto
  with fetchLiveViewers_failure [OF thrown] have zero: "liveViewers (out' ! k) = Num 0"
    by simp
  have same: "out' ! j = out ! j" if j: "j < length games" "j \<noteq> k" for j
  proof (rule trending_eqI)
    from out(3) out'(3) have "map id_r out' ! j = map id_r out ! j" by simp
    with j out(2) out'(2) show "id_r (out' ! j) = id_r (out ! j)" by simp
    from out(4) out'(4) have "map name_r out' ! j = map name_r out ! j" by simp
    with j out(2) out'(2) show "name_r (out' ! j) = name_r (out ! j)" by simp
    from out(5) out'(5) have "map image_r out' ! j = map image_r out ! j" by simp
    with j out(2) out'(2) show "image_r (out' ! j) = image_r (out ! j)" by simp
    from out(6) out'(6) j show "liveViewers (out' ! j) = liveViewers (out ! j)"
      by auto
  qed
  from out(1) out'(1,2) zero same
  show "\<exists>out out'. r = Inr out \<and> r' = Inr out' \<and> length out' = length games \<and>
         liveViewers (out' ! k) = Num 0 \<and>
         (\<forall>j<length games. j \<noteq> k \<longrightarrow> out' ! j = out ! j)"
    by blast
qed

text \<open>C6 at the catalog \<open>[A, B, C]\<close>, with no answer to the requests for \<open>B\<close>.\<close>

theorem fetchTrendingGames_isolation_witness:
  "fst (fetchLiveViewers_try unreachable (name_g (catalog ! 1)) initial) = Inl TypeError \<and>
   fst (fetchTrendingGames (Resolved \<lparr>results = Some catalog\<rparr>) networks
          [0, 1, 2, 0, 1, 2, 0, 1, 2] initial) = Some (Inr (merged 100 200 300)) \<and>
   fst (fetchTrendingGames (Resolved \<lparr>results = Some catalog\<rparr>) (networks(1 := unreachable))
          [2, 1, 0, 2, 0, 2, 0, 1, 1] initial) = Some (Inr (merged 100 0 300)) \<and>
   liveViewers (merged 100 0 300 ! 1) = Num 0 \<and>
   merged 100 0 300 ! 0 = merged 100 200 300 ! 0 \<and>
   merged 100 0 300 ! 2 = merged 100 200 300 ! 2"
proof -
  have k: "1 < length catalog"
    by (simp add: catalog_def)
  have thrown: "fst (fetchLiveViewers_try unreachable (name_g (catalog ! 1)) initial) = Inl TypeError"
    by (simp add: eval_simps unreachable_def catalog_def)
  have r: "fst (fetchTrendingGames (Resolved \<lparr>results = Some catalog\<rparr>) networks
          [0, 1, 2, 0, 1, 2, 0, 1, 2] initial) = Some (Inr (merged 100 200 300))"
    by (simp add: run_simps eval_simps streaming_def networks_def catalog_def merged_def)
  have r': "fst (fetchTrendingGames (Resolved \<lparr>results = Some catalog\<rparr>) (networks(1 := unreachable))
          [2, 1, 0, 2, 0, 2, 0, 1, 1] initial) = Some (Inr (merged 100 0 300))"
    by (simp add: run_simps eval_simps streaming_def networks_def catalog_def merged_def
        unreachable_def)
  from k thrown r r'
    fetchTrendingGames_isolation [of catalog "[2, 1, 0, 2, 0, 2, 0, 1, 1]" networks 1 unreachable
      initial TypeError "[0, 1, 2, 0, 1, 2, 0, 1, 2]" "Inr (merged 100 200 300)"
      "Inr (merged 100 0 300)"]
  have "liveViewers (merged 100 0 300 ! 1) = Num 0 \<and>
     (\<forall>j<length catalog. j \<noteq> 1 \<longrightarrow> merged 100 0 300 ! j = merged 100 200 300 ! j)"
    by auto
  with thrown r r' show ?thesis
    by (simp add: catalog_def)
qed

section \<open>The views of the catalog\<close>

text \<open>
  Claim C5. When the request to the catalog provider is rejected, each of
  \<^verbatim>\<open>fetchTrendingGames\<close>, \<^verbatim>\<open>fetchGenreTrends\<close> and \<^verbatim>\<open>fetchPlatformPerformance\<close> raises the
  error of the rejection: none has a \<^verbatim>\<open>try\<close> around its request. \<^verbatim>\<open>fetchTrendingGames\<close> has
  then started no resolution, and the state is as it was.
\<close>

theorem catalog_failure_propagates:
  "fetchTrendingGames (Rejected f) envs schedule st = (Some (Inl (AxiosError f)), st) \<and>
   fetchGenreTrends unicode (Rejected f) = Inl (AxiosError f) \<and>
   fetchPlatformPerformance (Rejected f) = Inl (AxiosError f)"
  by (simp add: fetchTrendingGames_def fetchGenreTrends_def fetchPlatformPerformance_def)

text \<open>
  Claim C9. For every list of platforms of the provider, \<^verbatim>\<open>fetchPlatformPerformance\<close>
  returns a list of the same length whose entry at each position has the \<^verbatim>\<open>slug\<close> of the
  platform at that position as \<^verbatim>\<open>id\<close>, its \<^verbatim>\<open>name\<close> as \<^verbatim>\<open>label\<close> and its \<^verbatim>\<open>games_count\<close> as
  \<^verbatim>\<open>value\<close>: the order of the provider is kept.
\<close>

theorem fetchPlatformPerformance_order:
  "\<exists>out. fetchPlatformPerformance (Resolved \<lparr>results = Some platforms\<rparr>) = Inr out \<and>
     length out = length platforms \<and>
     map id_s out = map slug platforms \<and>
     map label out = map name_p platforms \<and>
     map value_s out = map games_count platforms"
  by (simp add: fetchPlatformPerformance_def comp_def)

text \<open>
  Claim C7 states that the \<^verbatim>\<open>value\<close> of each entry is the number of occurrences of its label.
  For the labels that are not names of properties of \<^verbatim>\<open>Object.prototype\<close> this holds
  (\<open>fetchGenreTrends_counts\<close> below). For a genre named \<^verbatim>\<open>constructor\<close>, met once, the test
  \<^verbatim>\<open>if (genreCounts[genre.name])\<close> finds the inherited function and takes the branch of a
  label seen before: the entry has the value \<^verbatim>\<open>NaN\<close>, not 1.
\<close>

theorem fetchGenreTrends_constructor:
  "fetchGenreTrends unicode (Resolved \<lparr>results = Some [constructor_game]\<rparr>) =
     Inr [\<lparr>id_s = Str ''constructor'', label = Str ''constructor'', value_s = NaN\<rparr>]"
  by (simp add: fetchGenreTrends_def constructor_game_def count_genre_def get_property_def
      object_prototype_keys_def own_entries_def is_array_index_def is_digit_def format_genre_def
      toLowerCase_def is_ascii_def lower_char_def)

text \<open>The genre lists \<open>[[Action, RPG], [Action]]\<close>.\<close>

lemma fetchGenreTrends_example:
  "fetchGenreTrends unicode (Resolved \<lparr>results = Some
      [\<lparr>id_g = Num 1, name_g = Str ''A'', background_image = Null,
        genres = Some [\<lparr>name_genre = Str ''Action''\<rparr>, \<lparr>name_genre = Str ''RPG''\<rparr>]\<rparr>,
       \<lparr>id_g = Num 2, name_g = Str ''B'', background_image = Null,
        genres = Some [\<lparr>name_genre = Str ''Action''\<rparr>]\<rparr>]\<rparr>) =
   Inr [\<lparr>id_s = Str ''action'', label = Str ''Action'', value_s = Num 2\<rparr>,
        \<lparr>id_s = Str ''rpg'', label = Str ''RPG'', value_s = Num 1\<rparr>]"
  by (simp add: fetchGenreTrends_def count_genre_def get_property_def
      object_prototype_keys_def own_entries_def is_array_index_def is_digit_def format_genre_def
      toLowerCase_def is_ascii_def lower_char_def)

text \<open>
  The count of the labels that \<^verbatim>\<open>Object.prototype\<close> does not know: \<^verbatim>\<open>genreCounts\<close> holds
  the number of occurrences of each label met so far, as long as the counts are below \<open>2^53\<close>,
  where \<^verbatim>\<open>++\<close> is exact.
\<close>

lemma tallies_empty: "tallies [] []"
  by (simp add: tallies_def)

lemma count_genre_tallies:
  assumes "tallies c L" and "k \<notin> set object_prototype_keys"
    and "int (length (L @ [k])) < 2 ^ 53"
  shows "tallies (count_genre c k) (L @ [k])"
proof (cases "k \<in> set L")
  case True
  with assms(1) have look: "map_of c k = Some (Finite (int (count_list L k)))"
    by (simp add: tallies_def)
  from True have pos: "count_list L k \<noteq> 0"
    by (simp add: count_list_0_iff)
  from count_le_length [of L k] assms(3) have "\<bar>int (count_list L k) + 1\<bar> < 2 ^ 53"
    by simp
  then have "add (Finite (int (count_list L k))) (Finite 1) = Finite (int (count_list L k) + 1)"
    by simp
  with look pos have step: "count_genre c k = AList.update k (Finite (int (count_list L k) + 1)) c"
    by (simp add: count_genre_def get_property_def)
  from assms(1) show ?thesis
    unfolding step tallies_def
    by (auto simp: distinct_update update_conv')
next
  case False
  with assms(1) have look: "map_of c k = None"
    by (simp add: tallies_def)
  with assms(2) have step: "count_genre c k = AList.update k (Finite 1) c"
    by (simp add: count_genre_def get_property_def)
  from assms(1) False show ?thesis
    unfolding step tallies_def
    by (auto simp: distinct_update update_conv')
qed

lemma foldl_count_genre_tallies:
  "tallies c L \<Longrightarrow> set ks \<inter> set object_prototype_keys = {} \<Longrightarrow>
   int (length (L @ ks)) < 2 ^ 53 \<Longrightarrow> tallies (foldl count_genre c ks) (L @ ks)"
proof (induction ks arbitrary: c L)
  case Nil
  then show ?case by simp
next
  case (Cons k ks)
  from Cons.prems have "tallies (count_genre c k) (L @ [k])"
    by (intro count_genre_tallies) auto
  from Cons.IH [OF this] Cons.prems(2,3) show ?case
    by simp
qed

lemma count_genres_foldl:
  "\<forall>game\<in>set games. genres game \<noteq> None \<Longrightarrow>
   count_genres games c = Inr (foldl count_genre c (genre_labels games))"
proof (induction games arbitrary: c)
  case Nil
  then show ?case by (simp add: genre_labels_def)
next
  case (Cons game games)
  then obtain gs where gs: "genres game = Some gs"
    by auto
  from Cons.IH [of "foldl count_genre c (map (to_string \<circ> name_genre) gs)"] Cons.prems
  show ?case
    by (simp add: gs genre_labels_def)
qed

lemma mset_own_entries: "mset (own_entries obj) = mset obj"
proof -
  have "mset (filter (is_array_index \<circ> fst) obj) + mset (filter (\<lambda>p. \<not> is_array_index (fst p)) obj) =
      mset obj"
    by (induction obj) simp_all
  then show ?thesis
    by (simp add: own_entries_def)
qed

lemma tallies_set:
  assumes "tallies c L"
  shows "set c = (\<lambda>k. (k, Finite (int (count_list L k)))) ` set L"
proof -
  from assms have d: "distinct (map fst c)"
    and m: "\<And>k. map_of c k = (if k \<in> set L then Some (Finite (int (count_list L k))) else None)"
    by (simp_all add: tallies_def)
  have "(k, v) \<in> set c \<longleftrightarrow> k \<in> set L \<and> v = Finite (int (count_list L k))" for k v
    using map_of_eq_Some_iff [OF d, of k v] m [of k] by (auto split: if_splits)
  then show ?thesis
    by auto
qed

text \<open>
  When every game has a list of genres, no label is the name of a property of
  \<^verbatim>\<open>Object.prototype\<close> and there are fewer than \<open>2^53\<close> labels in all, \<^verbatim>\<open>fetchGenreTrends\<close>
  returns exactly one entry per distinct label, with the label itself, its slug as \<^verbatim>\<open>id\<close>
  and the number of its occurrences as \<^verbatim>\<open>value\<close>.
\<close>

lemma fetchGenreTrends_counts:
  assumes "\<forall>game\<in>set games. genres game \<noteq> None"
    and "set (genre_labels games) \<inter> set object_prototype_keys = {}"
    and "int (length (genre_labels games)) < 2 ^ 53"
  shows "\<exists>out. fetchGenreTrends unicode (Resolved \<lparr>results = Some games\<rparr>) = Inr out \<and>
           distinct (map label out) \<and>
           set out =
             (\<lambda>k. \<lparr>id_s = Str (replace_first CHR '' '' CHR ''-'' (toLowerCase unicode k)),
                    label = Str k,
                    value_s = Num (int (count_list (genre_labels games) k))\<rparr>)
               ` set (genre_labels games)"
proof -
  let ?L = "genre_labels games"
  let ?c = "foldl count_genre [] ?L"
  let ?out = "map (format_genre unicode) (own_entries ?c)"
  have t: "tallies ?c ?L"
    using foldl_count_genre_tallies [OF tallies_empty assms(2)] assms(3) by simp
  have result: "fetchGenreTrends unicode (Resolved \<lparr>results = Some games\<rparr>) = Inr ?out"
    by (simp add: fetchGenreTrends_def count_genres_foldl [OF assms(1)])
  have "mset (map fst (own_entries ?c)) = mset (map fst ?c)"
    by (simp add: mset_own_entries)
  moreover from t have "distinct (map fst ?c)"
    by (simp add: tallies_def)
  ultimately have "distinct (map fst (own_entries ?c))"
    by (metis mset_eq_imp_distinct_iff)
  then have d: "distinct (map label ?out)"
    by (simp add: distinct_map format_genre_def comp_def inj_on_def)
  have "set (own_entries ?c) = set ?c"
    using mset_own_entries [of ?c] by (metis set_mset_mset)
  with tallies_set [OF t] have "set ?out =
      (\<lambda>k. format_genre unicode (k, Finite (int (count_list ?L k)))) ` set ?L"
    by (simp add: image_image)
  then have s: "set ?out =
      (\<lambda>k. \<lparr>id_s = Str (replace_first CHR '' '' CHR ''-'' (toLowerCase unicode k)),
             label = Str k, value_s = Num (int (count_list ?L k))\<rparr>) ` set ?L"
    by (simp add: format_genre_def)
  from result d s show ?thesis
    by blast
qed

text \<open>The slug: only the first space of a label is replaced.\<close>

lemma replace_first_absent: "a \<notin> set s \<Longrightarrow> replace_first a b s = s"
  by (induction s) auto

lemma replace_first_found:
  "a \<notin> set xs \<Longrightarrow> replace_first a b (xs @ a # ys) = xs @ b # ys"
  by (induction xs) auto

end
